theory Spec2Isabelle
  imports Complex_Main
begin

section \<open>Python values\<close>

text \<open>
  A Python \<open>str\<close> is a sequence of Unicode code points. It is modelled as a list of
  natural numbers, one per code point, so that \<open>s[0]\<close>, \<open>len(s)\<close> and \<open>c in s\<close> count
  what Python counts. \<open>u\<close> writes an ASCII literal as such a list; a literal with an
  accented letter is written with the code point of that letter between its ASCII parts.
\<close>

type_synonym ustring = "nat list"

definition u :: "string \<Rightarrow> ustring" where
  "u s = map of_char s"

text \<open>
  Values of type \<open>Any\<close> (the values of a claims dictionary or of a metadata dictionary)
  are \<open>pyval\<close>; \<open>PNone\<close> is Python's \<open>None\<close>. A dictionary with string keys is a map;
  \<open>dict_get\<close> is \<open>d.get(k)\<close> and \<open>dict_get_default\<close> is \<open>d.get(k, v0)\<close>. Exceptions are
  values of \<open>py_error\<close>.
\<close>

datatype pyval =
    PNone
  | PBool bool
  | PInt int
  | PFloat real
  | PStr ustring
  | PList "pyval list"
  | PDict "(ustring \<times> pyval) list"

datatype py_error = JWTError | ValidationError | TypeError | IntegrityError

type_synonym pydict = "ustring \<rightharpoonup> pyval"

definition dict_get :: "pydict \<Rightarrow> ustring \<Rightarrow> pyval" where
  "dict_get d k = (case d k of None \<Rightarrow> PNone | Some v \<Rightarrow> v)"

definition dict_get_default :: "pydict \<Rightarrow> ustring \<Rightarrow> pyval \<Rightarrow> pyval" where
  "dict_get_default d k v0 = (case d k of None \<Rightarrow> v0 | Some v \<Rightarrow> v)"

text \<open>
  \<open>str.upper\<close>, \<open>str.strip\<close>, \<open>str.isdigit\<close>, the regular expression class \<open>\s\<close> and
  \<open>unicodedata.normalize\<close> read the Unicode character database. Their behaviour on ASCII
  is written out below; the tables for the code points from 128 on are a parameter
  \<open>U\<close> of every function that reads them, so a statement about all \<open>U\<close> holds whatever
  those tables contain.
  \<^item> \<open>decomposition\<close>: the full compatibility decomposition (NFKD) of a code point;
  \<^item> \<open>uppercase\<close>: the full upper-case mapping of a code point (it may be several);
  \<^item> \<open>whitespace\<close>: whether \<open>str.isspace\<close>, \<open>str.strip\<close> and \<open>\s\<close> count it as white space;
  \<^item> \<open>digit\<close>: whether \<open>str.isdigit\<close> holds of it.
\<close>

record unicode_db =
  decomposition :: "nat \<Rightarrow> ustring"
  uppercase :: "nat \<Rightarrow> ustring"
  whitespace :: "nat \<Rightarrow> bool"
  digit :: "nat \<Rightarrow> bool"

text \<open>
  ASCII white space for Python: tab, line feed, vertical tab, form feed, carriage
  return, the separators U+001C to U+001F, and the space.
\<close>

definition ascii_isspace :: "nat \<Rightarrow> bool" where
  "ascii_isspace c = (c = 32 \<or> (9 \<le> c \<and> c \<le> 13) \<or> (28 \<le> c \<and> c \<le> 31))"

definition ascii_upper :: "nat \<Rightarrow> nat" where
  "ascii_upper c = (if 97 \<le> c \<and> c \<le> 122 then c - 32 else c)"

definition isspace :: "unicode_db \<Rightarrow> nat \<Rightarrow> bool" where
  "isspace U c = (if c < 128 then ascii_isspace c else whitespace U c)"

definition isdigit :: "unicode_db \<Rightarrow> nat \<Rightarrow> bool" where
  "isdigit U c = (if c < 128 then 48 \<le> c \<and> c \<le> 57 else digit U c)"

definition str_upper :: "unicode_db \<Rightarrow> ustring \<Rightarrow> ustring" where
  "str_upper U s = concat (map (\<lambda>c. if c < 128 then [ascii_upper c] else uppercase U c) s)"

definition str_strip :: "unicode_db \<Rightarrow> ustring \<Rightarrow> ustring" where
  "str_strip U s = rev (dropWhile (isspace U) (rev (dropWhile (isspace U) s)))"

definition str_isdigit :: "unicode_db \<Rightarrow> ustring \<Rightarrow> bool" where
  "str_isdigit U s = (s \<noteq> [] \<and> list_all (isdigit U) s)"

text \<open>
  An excerpt of the database for closed examples: U+00F3 (o with acute) decomposes into
  \<open>o\<close> and the combining acute accent U+0301 and has the upper case U+00D3; U+00A0 is
  white space. Only ASCII text and these code points are evaluated with it.
\<close>

definition unicode_excerpt :: unicode_db where
  "unicode_excerpt =
     \<lparr> decomposition = (\<lambda>c. if c = 243 then [111, 769] else [c]),
       uppercase = (\<lambda>c. if c = 243 then [211] else [c]),
       whitespace = (\<lambda>c. c = 160),
       digit = (\<lambda>c. False) \<rparr>"

section \<open>db/nif_utils.py: legal form from a tax identifier\<close>

text \<open>
  \<open>FORMAS_JURIDICAS_NIF\<close> is the dictionary of the source, with its seventeen entries in
  the source's order. An absent identifier is \<open>None\<close>; \<open>not nif\<close> holds of \<open>None\<close> and of
  the empty string. \<open>primer_char\<close> is the one-character string \<open>nif_clean[0]\<close>.
\<close>

definition persona_fisica :: ustring where
  "persona_fisica = u ''Persona f'' @ [237] @ u ''sica''"

definition desconocido :: ustring where
  "desconocido = u ''Desconocido''"

definition FORMAS_JURIDICAS_NIF_items :: "(ustring \<times> ustring) list" where
  "FORMAS_JURIDICAS_NIF_items =
    [(u ''A'', u ''Sociedad An'' @ [243] @ u ''nima (SA)''),
     (u ''B'', u ''Sociedad de Responsabilidad Limitada (SL)''),
     (u ''C'', u ''Sociedad Colectiva''),
     (u ''D'', u ''Sociedad Comanditaria''),
     (u ''E'', u ''Comunidades de Bienes''),
     (u ''F'', u ''Sociedad Cooperativa''),
     (u ''G'', u ''Asociaciones''),
     (u ''H'', u ''Comunidades de Propietarios en r'' @ [233] @ u ''gimen de propiedad horizontal''),
     (u ''J'', u ''Sociedades Civiles (con o sin personalidad jur'' @ [237] @ u ''dica)''),
     (u ''N'', u ''Entidades no residentes en Espa'' @ [241] @ u ''a''),
     (u ''P'', u ''Corporaciones Locales''),
     (u ''Q'', u ''Organismos P'' @ [250] @ u ''blicos''),
     (u ''R'', u ''Congregaciones e instituciones religiosas''),
     (u ''S'', [211] @ u ''rganos de la Administraci'' @ [243] @ u ''n del Estado y Comunidades Aut''
                 @ [243] @ u ''nomas''),
     (u ''U'', u ''Uniones Temporales de Empresas (UTE)''),
     (u ''V'', u ''Otros tipos no definidos''),
     (u ''W'', u ''Establecimientos permanentes de entidades no residentes en Espa'' @ [241] @ u ''a'')]"

definition FORMAS_JURIDICAS_NIF :: "ustring \<rightharpoonup> ustring" where
  "FORMAS_JURIDICAS_NIF = map_of FORMAS_JURIDICAS_NIF_items"

definition interpretar_forma_juridica_desde_nif :: "unicode_db \<Rightarrow> ustring option \<Rightarrow> ustring" where
  "interpretar_forma_juridica_desde_nif U nif =
     (case nif of
        None \<Rightarrow> desconocido
      | Some s \<Rightarrow>
          if s = [] then desconocido
          else
            let nif_clean = str_upper U (str_strip U s) in
            if of_char CHR ''*'' \<in> set nif_clean then persona_fisica
            else if length nif_clean < 1 then desconocido
            else
              let primer_char = take 1 nif_clean in
              (case FORMAS_JURIDICAS_NIF primer_char of
                 Some forma \<Rightarrow> forma
               | None \<Rightarrow>
                   if str_isdigit U primer_char then persona_fisica
                   else if primer_char \<in> {u ''X'', u ''Y'', u ''Z''} then persona_fisica
                   else desconocido))"

definition es_persona_fisica :: "unicode_db \<Rightarrow> ustring option \<Rightarrow> bool" where
  "es_persona_fisica U nif = (interpretar_forma_juridica_desde_nif U nif = persona_fisica)"

definition obtener_codigo_natural_desde_nif :: "unicode_db \<Rightarrow> ustring option \<Rightarrow> ustring" where
  "obtener_codigo_natural_desde_nif U nif =
     (case nif of
        None \<Rightarrow> u ''?''
      | Some s \<Rightarrow>
          if s = [] then u ''?''
          else
            let nif_clean = str_upper U (str_strip U s) in
            if of_char CHR ''*'' \<in> set nif_clean then u ''*''
            else if length nif_clean < 1 then u ''?''
            else
              let primer_char = take 1 nif_clean in
              (case FORMAS_JURIDICAS_NIF primer_char of
                 Some forma \<Rightarrow> primer_char
               | None \<Rightarrow>
                   if str_isdigit U primer_char then u ''*''
                   else if primer_char \<in> {u ''X'', u ''Y'', u ''Z''} then u ''*''
                   else u ''?''))"

text \<open>The nineteen results of the classification: the two fixed answers and the table's values.\<close>

definition formas_posibles :: "ustring list" where
  "formas_posibles = desconocido # persona_fisica # map snd FORMAS_JURIDICAS_NIF_items"

section \<open>db/utils.py: text normalisation\<close>

text \<open>
  \<open>unicodedata.normalize("NFKD", texto).encode("ASCII", "ignore").decode("ASCII")\<close>:
  NFKD replaces every code point by its full decomposition and then reorders combining
  marks among themselves. No combining mark is ASCII and an ASCII code point decomposes
  to itself, so the ASCII code points that survive the encoding are those of the
  decompositions, in order.
\<close>

definition ascii_fold :: "unicode_db \<Rightarrow> ustring \<Rightarrow> ustring" where
  "ascii_fold U s =
     filter (\<lambda>c. c < 128) (concat (map (\<lambda>c. if c < 128 then [c] else decomposition U c) s))"

text \<open>
  \<open>re.sub(r"\s+", " ", texto)\<close>: every maximal run of white space becomes one space.
\<close>

function collapse_whitespace :: "unicode_db \<Rightarrow> ustring \<Rightarrow> ustring" where
  "collapse_whitespace U [] = []"
| "collapse_whitespace U (c # cs) =
     (if isspace U c then of_char CHR '' '' # collapse_whitespace U (dropWhile (isspace U) cs)
      else c # collapse_whitespace U cs)"
  by pat_completeness auto
termination
  by (relation "measure (\<lambda>(U, s). length s)") (auto simp: length_dropWhile_le less_Suc_eq_le)

text \<open>
  \<open>re.sub(r"\s+([.,:;])", r"\1", texto)\<close>: scanning from the left, a run of white space
  is dropped when the character after the whole run is one of \<open>. , : ;\<close>; the greedy
  \<open>\s+\<close> cannot match a shorter run, since what follows a shorter run is white space.
\<close>

definition punctuation :: "nat \<Rightarrow> bool" where
  "punctuation c = (c \<in> {of_char CHR ''.'', of_char CHR '','', of_char CHR '':'', of_char CHR '';''})"

function drop_space_before_punctuation :: "unicode_db \<Rightarrow> ustring \<Rightarrow> ustring" where
  "drop_space_before_punctuation U [] = []"
| "drop_space_before_punctuation U (c # cs) =
     (if isspace U c then
        (case dropWhile (isspace U) cs of
           [] \<Rightarrow> c # drop_space_before_punctuation U cs
         | p # rest \<Rightarrow>
             if punctuation p then p # drop_space_before_punctuation U rest
             else c # drop_space_before_punctuation U cs)
      else c # drop_space_before_punctuation U cs)"
  by pat_completeness auto
termination
proof (relation "measure (\<lambda>(U, s). length s)")
  fix U :: unicode_db and c :: nat and cs p rest
  assume "dropWhile (isspace U) cs = p # rest"
  then have "length (p # rest) \<le> length cs"
    by (metis length_dropWhile_le)
  then show "((U, rest), (U, c # cs)) \<in> measure (\<lambda>(U, s). length s)" by simp
qed auto

definition normalizar :: "unicode_db \<Rightarrow> ustring option \<Rightarrow> ustring option" where
  "normalizar U texto =
     (case texto of
        None \<Rightarrow> None
      | Some s \<Rightarrow>
          if s = [] then None
          else
            let t1 = ascii_fold U s;
                t2 = str_strip U (str_upper U t1);
                t3 = collapse_whitespace U t2;
                t4 = drop_space_before_punctuation U t3
            in Some t4)"

section \<open>business/equivalencia.py: the equivalent amount\<close>

text \<open>
  \<open>TipoInstrumento\<close> is a string enumeration: a member compares equal to its value, so
  \<open>instrumento == TipoInstrumento.PRESTAMO\<close> is equality of \<open>instrumento\<close> with "prestamo".
\<close>

datatype TipoInstrumento =
  SUBVENCION_DIRECTA | PRESTAMO | GARANTIA | CAPITAL | VENTAJA_FISCAL | OTRO

fun tipo_value :: "TipoInstrumento \<Rightarrow> ustring" where
  "tipo_value SUBVENCION_DIRECTA = u ''subvencion_directa''"
| "tipo_value PRESTAMO = u ''prestamo''"
| "tipo_value GARANTIA = u ''garantia''"
| "tipo_value CAPITAL = u ''capital''"
| "tipo_value VENTAJA_FISCAL = u ''ventaja_fiscal''"
| "tipo_value OTRO = u ''otro''"

text \<open>
  Amounts are Python floats; they are modelled as real numbers, so the rounding of
  floating-point products is not part of the model. \<open>as_number\<close> gives the number a
  value stands for in a comparison or a division with a number (\<open>bool\<close> is a subclass of
  \<open>int\<close>); for any other value the operation raises \<open>TypeError\<close>. Dates are day numbers.
\<close>

definition as_number :: "pyval \<Rightarrow> real option" where
  "as_number v =
     (case v of
        PInt n \<Rightarrow> Some (of_int n)
      | PFloat x \<Rightarrow> Some x
      | PBool b \<Rightarrow> Some (if b then 1 else 0)
      | other \<Rightarrow> None)"

definition calcular_equivalente_prestamo_placeholder ::
  "real \<Rightarrow> int \<Rightarrow> pydict \<Rightarrow> py_error + real" where
  "calcular_equivalente_prestamo_placeholder importe_nominal fecha_concesion metadata =
     (let plazo_meses = dict_get_default metadata (u ''plazo_meses'') (PInt 60) in
      case as_number plazo_meses of
        None \<Rightarrow> Inl TypeError
      | Some plazo \<Rightarrow> if plazo < 60 then Inr (importe_nominal * 0.15) else Inr (importe_nominal * 0.25))"

definition calcular_equivalente_garantia_placeholder ::
  "real \<Rightarrow> int \<Rightarrow> pydict \<Rightarrow> py_error + real" where
  "calcular_equivalente_garantia_placeholder importe_nominal fecha_concesion metadata =
     (case as_number (dict_get_default metadata (u ''porcentaje_garantia'') (PInt 80)) of
        None \<Rightarrow> Inl TypeError
      | Some porcentaje \<Rightarrow>
          let porcentaje_garantia = porcentaje / 100.0 in
          Inr (importe_nominal * porcentaje_garantia * 0.05))"

text \<open>
  The warning that the logger receives for an instrument outside the recognised ones;
  the function returns its result together with the list of warnings it logged.
\<close>

definition aviso_instrumento :: "ustring \<Rightarrow> ustring" where
  "aviso_instrumento instrumento =
     u ''Instrumento no reconocido '' @ [39] @ instrumento @ [39]
       @ u ''. Usando importe nominal como equivalente.''"

definition calcular_importe_equivalente ::
  "real option \<Rightarrow> int \<Rightarrow> ustring option \<Rightarrow> ustring option \<Rightarrow> pydict option
     \<Rightarrow> (py_error + real) \<times> ustring list" where
  "calcular_importe_equivalente importe_nominal fecha_concesion regimen_ayuda instrumento metadata =
     (case importe_nominal of
        None \<Rightarrow> (Inr 0.0, [])
      | Some nominal \<Rightarrow>
          if nominal = 0 then (Inr 0.0, [])
          else
            let md = (case metadata of None \<Rightarrow> Map.empty | Some m \<Rightarrow> m) in
            (case instrumento of
               None \<Rightarrow> (Inr nominal, [])
             | Some i \<Rightarrow>
                 if i = tipo_value SUBVENCION_DIRECTA then (Inr nominal, [])
                 else if i = tipo_value PRESTAMO then
                   (calcular_equivalente_prestamo_placeholder nominal fecha_concesion md, [])
                 else if i = tipo_value GARANTIA then
                   (calcular_equivalente_garantia_placeholder nominal fecha_concesion md, [])
                 else if i = tipo_value CAPITAL then (Inr nominal, [])
                 else if i = tipo_value VENTAJA_FISCAL then (Inr nominal, [])
                 else (Inr nominal, [aviso_instrumento i])))"

text \<open>The instrument strings that have a branch of their own.\<close>

definition instrumentos_reconocidos :: "ustring list" where
  "instrumentos_reconocidos =
     map tipo_value [SUBVENCION_DIRECTA, PRESTAMO, GARANTIA, CAPITAL, VENTAJA_FISCAL]"

subsection \<open>The de-minimis ceiling\<close>

text \<open>
  The beneficiary id, the concession date and the window length are accepted and not
  read, as in the source; the prior aid is the constant 0.
\<close>

record de_minimis_result =
  valido :: bool
  acumulado_previo :: real
  acumulado_total :: real
  limite_aplicable :: real
  margen_restante :: real

definition validar_limite_de_minimis ::
  "ustring \<Rightarrow> real \<Rightarrow> int \<Rightarrow> int \<Rightarrow> de_minimis_result" where
  "validar_limite_de_minimis beneficiario_id importe_equivalente_nuevo fecha_concesion
       periodo_ventana_anos =
     (let previo = 0;
          total = previo + importe_equivalente_nuevo;
          limite = 300000
      in \<lparr> valido = (total \<le> limite),
           acumulado_previo = previo,
           acumulado_total = total,
           limite_aplicable = limite,
           margen_restante = max 0 (limite - total) \<rparr>)"

section \<open>db/models.py: the derived amount of a grant\<close>

text \<open>
  The columns of \<open>RegimenAyuda\<close> and \<open>Concesion\<close> that the derived properties read.
  Nullable columns and the optional relationship are options; \<open>Integer\<close> columns hold
  Python integers.
\<close>

record RegimenAyuda =
  descripcion :: ustring
  descripcion_norm :: ustring

record Concesion =
  id_concesion :: ustring
  importe_equivalente :: "int option"
  importe_nominal :: "int option"
  regimen_ayuda :: "RegimenAyuda option"

definition regimen_tipo_norm :: "Concesion \<Rightarrow> ustring option" where
  "regimen_tipo_norm c =
     (case regimen_ayuda c of
        Some r \<Rightarrow> Some (descripcion_norm r)
      | None \<Rightarrow> None)"

definition es_ayuda_estado :: "Concesion \<Rightarrow> bool" where
  "es_ayuda_estado c = (regimen_tipo_norm c = Some (u ''ayuda_estado''))"

definition es_minimis :: "Concesion \<Rightarrow> bool" where
  "es_minimis c = (regimen_tipo_norm c = Some (u ''minimis''))"

text \<open>Python's \<open>x or 0\<close> on an optional integer: \<open>None\<close> and \<open>0\<close> are both falsy.\<close>

definition or_zero :: "int option \<Rightarrow> int" where
  "or_zero x = (case x of None \<Rightarrow> 0 | Some v \<Rightarrow> if v = 0 then 0 else v)"

definition importe :: "Concesion \<Rightarrow> int" where
  "importe c =
     (if es_ayuda_estado c then or_zero (importe_equivalente c)
      else or_zero (importe_nominal c))"

section \<open>auth/jwt_auth.py: tokens\<close>

definition SECRET_KEY :: ustring where
  "SECRET_KEY = u ''tu-clave-secreta-muy-segura-cambiar-en-produccion''"

definition ALGORITHM :: ustring where
  "ALGORITHM = u ''HS256''"

definition ACCESS_TOKEN_EXPIRE_MINUTES :: int where
  "ACCESS_TOKEN_EXPIRE_MINUTES = 30"

definition REFRESH_TOKEN_EXPIRE_DAYS :: int where
  "REFRESH_TOKEN_EXPIRE_DAYS = 7"

text \<open>
  Modelled from the spec: the JSON Web Token codec \<open>jwt.encode\<close> / \<open>jwt.decode\<close> of the
  library \<open>jose\<close>, which the module imports and the repository does not contain.
  A token string is either the signed serialisation of a claims dictionary, made with
  an algorithm name and a key, or a string that does not parse. \<open>jwt_decode\<close> "verifies
  the signature and standard expiry claim" and fails with \<open>JWTError\<close> "if the signature
  is invalid, malformed, or expired": a signature verifies exactly when algorithm and
  key are those of the signer, and a token has expired when its \<open>exp\<close> claim lies before
  the clock. The codec's checks of other registered claims are not modelled.

  Time is counted in whole seconds since the epoch, the unit of the \<open>exp\<close> claim;
  \<open>datetime.utcnow()\<close> is an argument of every function that reads the clock (one argument
  per reading) and a \<open>timedelta\<close> is a number of seconds.
\<close>

datatype token =
    Signed ustring ustring pydict  \<comment> \<open>algorithm, key, claims\<close>
  | Malformed ustring

definition jwt_encode :: "pydict \<Rightarrow> ustring \<Rightarrow> ustring \<Rightarrow> token" where
  "jwt_encode claims key algorithm = Signed algorithm key claims"

definition jwt_decode :: "token \<Rightarrow> ustring \<Rightarrow> ustring list \<Rightarrow> int \<Rightarrow> py_error + pydict" where
  "jwt_decode tok key algorithms now =
     (case tok of
        Malformed s \<Rightarrow> Inl JWTError
      | Signed algorithm k claims \<Rightarrow>
          if algorithm \<notin> set algorithms \<or> k \<noteq> key then Inl JWTError
          else
            (case claims (u ''exp'') of
               None \<Rightarrow> Inr claims
             | Some (PInt expiry) \<Rightarrow> if expiry < now then Inl JWTError else Inr claims
             | Some other \<Rightarrow> Inl JWTError))"

definition timedelta_minutes :: "int \<Rightarrow> int" where
  "timedelta_minutes n = 60 * n"

definition timedelta_days :: "int \<Rightarrow> int" where
  "timedelta_days n = 86400 * n"

text \<open>
  \<open>if expires_delta:\<close> tests truth: an absent lifetime and a lifetime of zero both take
  the default of 30 minutes.
\<close>

definition create_access_token :: "pydict \<Rightarrow> int option \<Rightarrow> int \<Rightarrow> token" where
  "create_access_token data expires_delta utcnow =
     (let to_encode = data;
          expire = (case expires_delta of
                      Some delta \<Rightarrow>
                        if delta \<noteq> 0 then utcnow + delta
                        else utcnow + timedelta_minutes ACCESS_TOKEN_EXPIRE_MINUTES
                    | None \<Rightarrow> utcnow + timedelta_minutes ACCESS_TOKEN_EXPIRE_MINUTES)
      in jwt_encode (to_encode(u ''exp'' \<mapsto> PInt expire)) SECRET_KEY ALGORITHM)"

definition create_refresh_token :: "pydict \<Rightarrow> int \<Rightarrow> token" where
  "create_refresh_token data utcnow =
     (let to_encode = data;
          expire = utcnow + timedelta_days REFRESH_TOKEN_EXPIRE_DAYS
      in jwt_encode (to_encode(u ''exp'' \<mapsto> PInt expire, u ''type'' \<mapsto> PStr (u ''refresh'')))
           SECRET_KEY ALGORITHM)"

definition decode_token :: "token \<Rightarrow> int \<Rightarrow> pydict option" where
  "decode_token tok now =
     (case jwt_decode tok SECRET_KEY [ALGORITHM] now of
        Inr payload \<Rightarrow> Some payload
      | Inl e \<Rightarrow> None)"

record Token =
  access_token :: token
  refresh_token :: token
  token_type :: ustring

definition create_token_pair :: "ustring \<Rightarrow> ustring \<Rightarrow> int \<Rightarrow> int \<Rightarrow> Token" where
  "create_token_pair username role utcnow1 utcnow2 =
     \<lparr> access_token =
         create_access_token [u ''sub'' \<mapsto> PStr username, u ''role'' \<mapsto> PStr role] None utcnow1,
       refresh_token =
         create_refresh_token [u ''sub'' \<mapsto> PStr username, u ''role'' \<mapsto> PStr role] utcnow2,
       token_type = u ''bearer'' \<rparr>"

definition refresh_access_token :: "token \<Rightarrow> int \<Rightarrow> int \<Rightarrow> token option" where
  "refresh_access_token tok now utcnow =
     (case decode_token tok now of
        None \<Rightarrow> None
      | Some payload \<Rightarrow>
          if dict_get payload (u ''type'') \<noteq> PStr (u ''refresh'') then None
          else
            let username = dict_get payload (u ''sub'');
                role = dict_get_default payload (u ''role'') (PStr (u ''user''))
            in if username = PNone then None
               else Some (create_access_token [u ''sub'' \<mapsto> username, u ''role'' \<mapsto> role]
                            None utcnow))"

text \<open>
  \<open>UserInToken(username=..., role=...)\<close> validates its two fields as strings and raises
  \<open>ValidationError\<close> otherwise.
\<close>

record UserInToken =
  username :: ustring
  role :: ustring

definition new_UserInToken :: "pyval \<Rightarrow> pyval \<Rightarrow> py_error + UserInToken" where
  "new_UserInToken username_value role_value =
     (case (username_value, role_value) of
        (PStr n, PStr r) \<Rightarrow> Inr \<lparr> username = n, role = r \<rparr>
      | other \<Rightarrow> Inl ValidationError)"

definition verify_token :: "token \<Rightarrow> int \<Rightarrow> py_error + UserInToken option" where
  "verify_token tok now =
     (case decode_token tok now of
        None \<Rightarrow> Inr None
      | Some payload \<Rightarrow>
          let username_value = dict_get payload (u ''sub'');
              role_value = dict_get_default payload (u ''role'') (PStr (u ''user''))
          in if username_value = PNone then Inr None
             else (case new_UserInToken username_value role_value of
                     Inl e \<Rightarrow> Inl e
                   | Inr user \<Rightarrow> Inr (Some user)))"

section \<open>auth/service.py: updating a user\<close>

text \<open>
  \<open>UsuarioUpdate\<close> (auth/models.py): every field is optional and defaults to \<open>None\<close>;
  \<open>model_dump(exclude_unset=True)\<close> keeps the fields that were given explicitly, also when
  the value given is \<open>None\<close>. A field is therefore \<open>Unset\<close> or \<open>Assigned v\<close>.
\<close>

datatype 'a field = Unset | Assigned 'a

record UsuarioUpdate =
  email :: "ustring option field"
  nombre :: "ustring option field"
  role :: "ustring option field"
  activo :: "bool option field"
  telegram_chat_id :: "ustring option field"
  telegram_username :: "ustring option field"
  telegram_verificado :: "bool option field"

text \<open>
  \<open>Usuario\<close> (db/models.py): the primary key of \<open>UUIDMixin\<close>, the columns of \<open>AuditMixin\<close>
  and the columns of the class. The table is the list of its rows.
\<close>

record Usuario =
  id' :: ustring
  created_at :: int
  created_by :: "ustring option"
  updated_at :: "int option"
  updated_by :: "ustring option"
  username :: ustring
  email :: ustring
  hashed_password :: ustring
  nombre :: "ustring option"
  role :: ustring
  activo :: bool
  telegram_chat_id :: "ustring option"
  telegram_username :: "ustring option"
  telegram_verificado :: "bool option"

type_synonym usuario_table = "Usuario list"

definition get_user_by_id :: "usuario_table \<Rightarrow> ustring \<Rightarrow> Usuario option" where
  "get_user_by_id db user_id = find (\<lambda>row. id' row = user_id) db"

text \<open>
  \<open>setattr(db_user, field, value)\<close> for each field of the dump, then \<open>db.commit()\<close>: the
  commit fails with \<open>IntegrityError\<close>, and stores nothing, when \<open>None\<close> was assigned to a
  column declared \<open>nullable=False\<close> (email, role, activo) or when an assigned email or
  telegram chat id is already that of another row (\<open>unique=True\<close>). Otherwise the row is
  stored, with \<open>updated_at\<close> set by \<open>onupdate\<close> when a column changed, and \<open>db.refresh\<close>
  reads it back. The function returns its result together with the table after the call.
\<close>

definition set_nullable :: "'a option field \<Rightarrow> 'a option \<Rightarrow> 'a option" where
  "set_nullable f old = (case f of Unset \<Rightarrow> old | Assigned v \<Rightarrow> v)"

definition set_required :: "'a option field \<Rightarrow> 'a \<Rightarrow> 'a" where
  "set_required f old = (case f of Assigned (Some v) \<Rightarrow> v | other \<Rightarrow> old)"

definition sets_null :: "'a option field \<Rightarrow> bool" where
  "sets_null f = (f = Assigned None)"

definition apply_update :: "UsuarioUpdate \<Rightarrow> Usuario \<Rightarrow> Usuario" where
  "apply_update user_data db_user =
     db_user\<lparr> Usuario.email := set_required (UsuarioUpdate.email user_data) (Usuario.email db_user),
              Usuario.nombre := set_nullable (UsuarioUpdate.nombre user_data) (Usuario.nombre db_user),
              Usuario.role := set_required (UsuarioUpdate.role user_data) (Usuario.role db_user),
              Usuario.activo := set_required (UsuarioUpdate.activo user_data) (Usuario.activo db_user),
              Usuario.telegram_chat_id :=
                set_nullable (UsuarioUpdate.telegram_chat_id user_data) (Usuario.telegram_chat_id db_user),
              Usuario.telegram_username :=
                set_nullable (UsuarioUpdate.telegram_username user_data) (Usuario.telegram_username db_user),
              Usuario.telegram_verificado :=
                set_nullable (UsuarioUpdate.telegram_verificado user_data)
                  (Usuario.telegram_verificado db_user) \<rparr>"

definition violates_not_null :: "UsuarioUpdate \<Rightarrow> bool" where
  "violates_not_null user_data =
     (sets_null (UsuarioUpdate.email user_data) \<or> sets_null (UsuarioUpdate.role user_data)
      \<or> sets_null (UsuarioUpdate.activo user_data))"

definition violates_unique :: "usuario_table \<Rightarrow> ustring \<Rightarrow> UsuarioUpdate \<Rightarrow> bool" where
  "violates_unique db user_id user_data =
     ((case UsuarioUpdate.email user_data of
         Assigned (Some e) \<Rightarrow> list_ex (\<lambda>other. id' other \<noteq> user_id \<and> Usuario.email other = e) db
       | other \<Rightarrow> False)
      \<or> (case UsuarioUpdate.telegram_chat_id user_data of
            Assigned (Some c) \<Rightarrow>
              list_ex (\<lambda>other. id' other \<noteq> user_id \<and> Usuario.telegram_chat_id other = Some c) db
          | other \<Rightarrow> False))"

fun replace_row :: "usuario_table \<Rightarrow> Usuario \<Rightarrow> usuario_table" where
  "replace_row [] new = []"
| "replace_row (row # rows) new =
     (if id' row = id' new then new # rows else row # replace_row rows new)"

definition update_user ::
  "usuario_table \<Rightarrow> ustring \<Rightarrow> UsuarioUpdate \<Rightarrow> int
     \<Rightarrow> (py_error + Usuario option) \<times> usuario_table" where
  "update_user db user_id user_data now =
     (case get_user_by_id db user_id of
        None \<Rightarrow> (Inr None, db)
      | Some db_user \<Rightarrow>
          let changed = apply_update user_data db_user in
          if violates_not_null user_data \<or> violates_unique db user_id user_data
          then (Inl IntegrityError, db)
          else
            let stored = (if changed = db_user then db_user
                          else changed\<lparr> updated_at := Some now \<rparr>)
            in (Inr (Some stored), replace_row db stored))"

text \<open>The payload in which only the role was given.\<close>

definition only_role :: "ustring option \<Rightarrow> UsuarioUpdate" where
  "only_role r =
     \<lparr> UsuarioUpdate.email = Unset, UsuarioUpdate.nombre = Unset, UsuarioUpdate.role = Assigned r,
       UsuarioUpdate.activo = Unset, UsuarioUpdate.telegram_chat_id = Unset,
       UsuarioUpdate.telegram_username = Unset, UsuarioUpdate.telegram_verificado = Unset \<rparr>"

text \<open>Two rows for closed examples.\<close>

definition ana :: Usuario where
  "ana = \<lparr> id' = u ''1'', created_at = 10, created_by = None, updated_at = None,
           updated_by = None, username = u ''ana'', email = u ''ana@example.org'',
           hashed_password = u ''hash-a'', nombre = Some (u ''Ana''), role = u ''user'',
           activo = True, telegram_chat_id = None, telegram_username = None,
           telegram_verificado = Some False \<rparr>"

definition luis :: Usuario where
  "luis = \<lparr> id' = u ''2'', created_at = 11, created_by = None, updated_at = None,
            updated_by = None, username = u ''luis'', email = u ''luis@example.org'',
            hashed_password = u ''hash-l'', nombre = None, role = u ''admin'',
            activo = True, telegram_chat_id = None, telegram_username = None,
            telegram_verificado = Some False \<rparr>"

section \<open>The shape of normalised text\<close>

text \<open>
  \<open>single_spaced\<close>: every white-space character is a single space followed by a
  character that is not white space. \<open>tidy\<close>: moreover that character is no punctuation
  mark of \<open>. , : ;\<close>.
\<close>

definition ascii_text :: "ustring \<Rightarrow> bool" where
  "ascii_text s = list_all (\<lambda>c. c < 128) s"

definition upper_text :: "ustring \<Rightarrow> bool" where
  "upper_text s = list_all (\<lambda>c. c < 97 \<or> 122 < c) s"

fun single_spaced :: "unicode_db \<Rightarrow> ustring \<Rightarrow> bool" where
  "single_spaced U [] = True"
| "single_spaced U [c] = (\<not> isspace U c)"
| "single_spaced U (c # d # r) =
     ((if isspace U c then c = 32 \<and> \<not> isspace U d else True) \<and> single_spaced U (d # r))"

fun tidy :: "unicode_db \<Rightarrow> ustring \<Rightarrow> bool" where
  "tidy U [] = True"
| "tidy U [c] = (\<not> isspace U c)"
| "tidy U (c # d # r) =
     ((if isspace U c then c = 32 \<and> \<not> isspace U d \<and> \<not> punctuation d else True) \<and> tidy U (d # r))"

section \<open>Properties of the classification of tax identifiers\<close>

lemma formas_not_pf: "FORMAS_JURIDICAS_NIF k = Some f \<Longrightarrow> f \<noteq> persona_fisica"
  by (auto simp: FORMAS_JURIDICAS_NIF_def FORMAS_JURIDICAS_NIF_items_def persona_fisica_def u_def split: if_splits)

lemma take1_not_star: "of_char CHR ''*'' \<notin> set s \<Longrightarrow> take 1 s \<noteq> u ''*''"
  by (cases s) (auto simp: u_def)

lemma distinct_formas_posibles: "distinct formas_posibles"
  by (simp add: formas_posibles_def FORMAS_JURIDICAS_NIF_items_def persona_fisica_def desconocido_def u_def)

lemma interpretar_letras:
  "map (interpretar_forma_juridica_desde_nif U)
    [None, Some (u ''1''), Some (u ''A''), Some (u ''B''), Some (u ''C''), Some (u ''D''), Some (u ''E''),
     Some (u ''F''), Some (u ''G''), Some (u ''H''), Some (u ''J''), Some (u ''N''), Some (u ''P''),
     Some (u ''Q''), Some (u ''R''), Some (u ''S''), Some (u ''U''), Some (u ''V''), Some (u ''W'')]
   = formas_posibles"
proof -
  have u1: "\<And>c. u [c] = [of_char c]" by (simp add: u_def)
  show ?thesis
  by (simp add: u1 interpretar_forma_juridica_desde_nif_def str_upper_def str_strip_def isspace_def ascii_isspace_def ascii_upper_def FORMAS_JURIDICAS_NIF_def FORMAS_JURIDICAS_NIF_items_def str_isdigit_def isdigit_def formas_posibles_def)
qed

lemma formas_in:
  "FORMAS_JURIDICAS_NIF k = Some f \<Longrightarrow> f \<in> set (map snd FORMAS_JURIDICAS_NIF_items)"
  unfolding FORMAS_JURIDICAS_NIF_def by (metis map_of_SomeD image_eqI snd_conv set_map)

lemmas nif_eval =
  interpretar_forma_juridica_desde_nif_def str_upper_def str_strip_def isspace_def
  ascii_isspace_def ascii_upper_def FORMAS_JURIDICAS_NIF_def FORMAS_JURIDICAS_NIF_items_def
  str_isdigit_def isdigit_def persona_fisica_def

text \<open>
  C3 (as amended). For every identifier, absent or any string, and whatever the Unicode
  tables hold, the classification returns one of nineteen fixed strings: "Desconocido",
  "Persona fisica" and the seventeen values of the table, all different. "A12345678"
  gives the table's entry for A, "B87654321" the entry for B, "****5678A" and "12345678Z"
  give the natural person, and an absent identifier gives "Desconocido".
\<close>

theorem interpretar_one_of_nineteen:
  "interpretar_forma_juridica_desde_nif U nif \<in> set formas_posibles
   \<and> length formas_posibles = 19
   \<and> distinct formas_posibles
   \<and> interpretar_forma_juridica_desde_nif U (Some (u ''A12345678''))
       = u ''Sociedad An'' @ [243] @ u ''nima (SA)''
   \<and> interpretar_forma_juridica_desde_nif U (Some (u ''B87654321''))
       = u ''Sociedad de Responsabilidad Limitada (SL)''
   \<and> interpretar_forma_juridica_desde_nif U (Some (u ''****5678A'')) = persona_fisica
   \<and> interpretar_forma_juridica_desde_nif U (Some (u ''12345678Z'')) = persona_fisica
   \<and> interpretar_forma_juridica_desde_nif U None = desconocido"
proof -
  have r: "interpretar_forma_juridica_desde_nif U nif \<in> set formas_posibles"
    by (auto simp: interpretar_forma_juridica_desde_nif_def formas_posibles_def Let_def
        dest: formas_in split: option.splits simp del: set_map)
  have n: "length formas_posibles = 19"
    by (simp add: formas_posibles_def FORMAS_JURIDICAS_NIF_items_def)
  have a: "interpretar_forma_juridica_desde_nif U (Some (u ''A12345678''))
       = u ''Sociedad An'' @ [243] @ u ''nima (SA)''"
    by (simp add: u_def nif_eval)
  have b: "interpretar_forma_juridica_desde_nif U (Some (u ''B87654321''))
       = u ''Sociedad de Responsabilidad Limitada (SL)''"
    by (simp add: u_def nif_eval)
  have c: "interpretar_forma_juridica_desde_nif U (Some (u ''****5678A'')) = persona_fisica"
    by (simp add: u_def nif_eval)
  have d: "interpretar_forma_juridica_desde_nif U (Some (u ''12345678Z'')) = persona_fisica"
    by (simp add: u_def nif_eval)
  have e: "interpretar_forma_juridica_desde_nif U None = desconocido"
    by (simp add: interpretar_forma_juridica_desde_nif_def)
  from r n distinct_formas_posibles a b c d e show ?thesis by blast
qed

text \<open>
  The claim as stated, with eighteen strings, fails: these nineteen identifiers are
  classified into nineteen different strings.
\<close>

theorem interpretar_nineteen_results:
  "card (set (map (interpretar_forma_juridica_desde_nif unicode_excerpt)
    [None, Some (u ''1''), Some (u ''A''), Some (u ''B''), Some (u ''C''), Some (u ''D''),
     Some (u ''E''), Some (u ''F''), Some (u ''G''), Some (u ''H''), Some (u ''J''),
     Some (u ''N''), Some (u ''P''), Some (u ''Q''), Some (u ''R''), Some (u ''S''),
     Some (u ''U''), Some (u ''V''), Some (u ''W'')])) = 19"
proof -
  have "length formas_posibles = 19"
    by (simp add: formas_posibles_def FORMAS_JURIDICAS_NIF_items_def)
  then show ?thesis
    unfolding interpretar_letras using distinct_card[OF distinct_formas_posibles] by simp
qed

text \<open>
  C4. For every identifier, absent or any string, \<open>es_persona_fisica\<close> holds exactly when
  \<open>obtener_codigo_natural_desde_nif\<close> returns "*".
\<close>

theorem natural_code_iff_persona_fisica:
  "es_persona_fisica U nif \<longleftrightarrow> obtener_codigo_natural_desde_nif U nif = u ''*''"
proof (cases nif)
  case None
  then show ?thesis
    by (simp add: es_persona_fisica_def interpretar_forma_juridica_desde_nif_def
        obtener_codigo_natural_desde_nif_def desconocido_def persona_fisica_def u_def)
next
  case (Some s)
  define c where "c = str_upper U (str_strip U s)"
  have d: "desconocido \<noteq> persona_fisica" "u ''?'' \<noteq> u ''*''"
    by (simp_all add: desconocido_def persona_fisica_def u_def)
  have unf: "es_persona_fisica U nif =
      ((if s = [] then desconocido
        else if of_char CHR ''*'' \<in> set c then persona_fisica
        else if length c < 1 then desconocido
        else (case FORMAS_JURIDICAS_NIF (take 1 c) of
                Some forma \<Rightarrow> forma
              | None \<Rightarrow> if str_isdigit U (take 1 c) then persona_fisica
                  else if take 1 c \<in> {u ''X'', u ''Y'', u ''Z''} then persona_fisica
                  else desconocido)) = persona_fisica)"
    "obtener_codigo_natural_desde_nif U nif =
      (if s = [] then u ''?''
        else if of_char CHR ''*'' \<in> set c then u ''*''
        else if length c < 1 then u ''?''
        else (case FORMAS_JURIDICAS_NIF (take 1 c) of
                Some forma \<Rightarrow> take 1 c
              | None \<Rightarrow> if str_isdigit U (take 1 c) then u ''*''
                  else if take 1 c \<in> {u ''X'', u ''Y'', u ''Z''} then u ''*''
                  else u ''?''))"
    by (simp_all only: Some c_def es_persona_fisica_def interpretar_forma_juridica_desde_nif_def
        obtener_codigo_natural_desde_nif_def Let_def option.case)
  show ?thesis
  proof (cases "s = [] \<or> of_char CHR ''*'' \<in> set c \<or> length c < 1")
    case True
    then show ?thesis unfolding unf using d by auto
  next
    case False
    then have ns: "take 1 c \<noteq> u ''*''" using take1_not_star by blast
    show ?thesis
    proof (cases "FORMAS_JURIDICAS_NIF (take 1 c)")
      case None
      with False d show ?thesis unfolding unf by simp
    next
      case (Some f)
      with False ns formas_not_pf[OF Some] show ?thesis unfolding unf by simp
    qed
  qed
qed

section \<open>Properties of text normalisation\<close>

lemma punct_not_space: "punctuation p \<Longrightarrow> \<not> isspace U p"
  by (auto simp: punctuation_def isspace_def ascii_isspace_def)

lemma ascii_fold_ascii: "ascii_text (ascii_fold U s)"
  by (simp add: ascii_text_def ascii_fold_def list_all_iff)

lemma ascii_fold_id: "ascii_text s \<Longrightarrow> ascii_fold U s = s"
  by (induction s) (auto simp: ascii_text_def ascii_fold_def)

lemma upper_ascii: "ascii_text s \<Longrightarrow> str_upper U s = map ascii_upper s"
  by (induction s) (auto simp: ascii_text_def str_upper_def)

lemma upper_props: "ascii_text s \<Longrightarrow> ascii_text (str_upper U s) \<and> upper_text (str_upper U s)"
  by (auto simp: upper_ascii ascii_text_def upper_text_def list_all_iff ascii_upper_def)

lemma upper_id: "ascii_text s \<Longrightarrow> upper_text s \<Longrightarrow> str_upper U s = s"
  by (induction s) (auto simp: ascii_text_def upper_text_def str_upper_def ascii_upper_def)

lemma set_strip: "set (str_strip U s) \<subseteq> set s"
  unfolding str_strip_def
  by (metis set_dropWhileD set_rev subsetI)

lemma set_collapse: "set (collapse_whitespace U s) \<subseteq> insert 32 (set s)"
proof (induction U s rule: collapse_whitespace.induct)
  case (1 U) show ?case by simp
next
  case (2 U c cs)
  show ?case
  proof (cases "isspace U c")
    case True
    have "set (dropWhile (isspace U) cs) \<subseteq> set cs" by (meson set_dropWhileD subsetI)
    with 2(1)[OF True] True show ?thesis by auto
  next
    case False
    with 2(2)[OF False] show ?thesis by auto
  qed
qed

lemma drop_unfold:
  "\<not> isspace U c \<Longrightarrow>
     drop_space_before_punctuation U (c # cs) = c # drop_space_before_punctuation U cs"
  "isspace U c \<Longrightarrow> dropWhile (isspace U) cs = [] \<Longrightarrow>
     drop_space_before_punctuation U (c # cs) = c # drop_space_before_punctuation U cs"
  "isspace U c \<Longrightarrow> dropWhile (isspace U) cs = p # rest \<Longrightarrow> punctuation p \<Longrightarrow>
     drop_space_before_punctuation U (c # cs) = p # drop_space_before_punctuation U rest"
  "isspace U c \<Longrightarrow> dropWhile (isspace U) cs = p # rest \<Longrightarrow> \<not> punctuation p \<Longrightarrow>
     drop_space_before_punctuation U (c # cs) = c # drop_space_before_punctuation U cs"
  by (simp_all only: drop_space_before_punctuation.simps if_True if_False list.case)

lemma set_drop: "set (drop_space_before_punctuation U s) \<subseteq> set s"
proof (induction U s rule: drop_space_before_punctuation.induct)
  case (1 U) show ?case by simp
next
  case (2 U c cs)
  show ?case
  proof (cases "isspace U c")
    case False
    from 2(4)[OF False] show ?thesis
      unfolding drop_unfold(1)[OF False] by auto
  next
    case True
    show ?thesis
    proof (cases "dropWhile (isspace U) cs")
      case Nil
      from 2(1)[OF True Nil] show ?thesis
        unfolding drop_unfold(2)[OF True Nil] by auto
    next
      case (Cons p rest)
      have sub: "set (p # rest) \<subseteq> set cs" by (metis Cons set_dropWhileD subsetI)
      show ?thesis
      proof (cases "punctuation p")
        case True': True
        from 2(2)[OF True Cons True'] sub show ?thesis
          unfolding drop_unfold(3)[OF True Cons True'] by auto
      next
        case False
        from 2(3)[OF True Cons False] show ?thesis
          unfolding drop_unfold(4)[OF True Cons False] by auto
      qed
    qed
  qed
qed

declare drop_space_before_punctuation.simps [simp del]

lemma tidy_cons: "\<not> isspace U c \<Longrightarrow> tidy U (c # s) = tidy U s"
  by (cases s) auto

lemma single_cons: "\<not> isspace U c \<Longrightarrow> single_spaced U (c # s) = single_spaced U s"
  by (cases s) auto

lemma tidy_single: "tidy U s \<Longrightarrow> single_spaced U s"
  by (induction U s rule: tidy.induct) (auto split: if_splits)

lemma tidy_last: "tidy U s \<Longrightarrow> s \<noteq> [] \<Longrightarrow> \<not> isspace U (last s)"
  by (induction U s rule: tidy.induct) (auto split: if_splits)

lemma dropWhile_hd: "\<not> P (hd xs) \<Longrightarrow> dropWhile P xs = xs"
  by (cases xs) auto

lemma strip_id: "s = [] \<or> (\<not> isspace U (hd s) \<and> \<not> isspace U (last s)) \<Longrightarrow> str_strip U s = s"
proof (cases s)
  case Nil then show ?thesis by (simp add: str_strip_def)
next
  case (Cons a r)
  assume "s = [] \<or> (\<not> isspace U (hd s) \<and> \<not> isspace U (last s))"
  with Cons have h: "\<not> isspace U a" "\<not> isspace U (last s)" by auto
  have 1: "dropWhile (isspace U) s = s" using Cons h by simp
  have "rev s \<noteq> []" "hd (rev s) = last s" using Cons by (simp_all add: hd_rev)
  with h have "\<not> isspace U (hd (rev s))" by simp
  then have 2: "dropWhile (isspace U) (rev s) = rev s" by (rule dropWhile_hd)
  show ?thesis by (simp add: str_strip_def 1 2)
qed

lemma strip_shape:
  "str_strip U s = [] \<or> (\<not> isspace U (hd (str_strip U s)) \<and> \<not> isspace U (last (str_strip U s)))"
proof -
  define t where "t = dropWhile (isspace U) s"
  have ht: "t = [] \<or> \<not> isspace U (hd t)"
    unfolding t_def by (metis hd_dropWhile)
  define w where "w = dropWhile (isspace U) (rev t)"
  have hw: "w = [] \<or> \<not> isspace U (hd w)"
    unfolding w_def by (metis hd_dropWhile)
  have st: "str_strip U s = rev w" by (simp add: str_strip_def w_def t_def)
  show ?thesis
  proof (cases "w = []")
    case True then show ?thesis by (simp add: st)
  next
    case False
    with hw have l: "\<not> isspace U (last (rev w))" by (simp add: last_rev)
    obtain pre where pre: "rev t = pre @ w"
      unfolding w_def by (metis takeWhile_dropWhile_id)
    then have "t = rev w @ rev pre" by (metis rev_append rev_rev_ident)
    with False have "hd t = hd (rev w)" "t \<noteq> []" by auto
    with ht have "\<not> isspace U (hd (rev w))" by auto
    with l show ?thesis by (simp add: st)
  qed
qed


lemma collapse_unfold:
  "isspace U c \<Longrightarrow>
     collapse_whitespace U (c # cs) = 32 # collapse_whitespace U (dropWhile (isspace U) cs)"
  "\<not> isspace U c \<Longrightarrow> collapse_whitespace U (c # cs) = c # collapse_whitespace U cs"
  by simp_all

declare collapse_whitespace.simps(2) [simp del]

lemma collapse_single:
  "s = [] \<or> \<not> isspace U (last s) \<Longrightarrow> single_spaced U (collapse_whitespace U s)"
proof (induction U s rule: collapse_whitespace.induct)
  case (1 U) show ?case by simp
next
  case (2 U c cs)
  from 2(3) have lst: "\<not> isspace U (last (c # cs))" by simp
  show ?case
  proof (cases "isspace U c")
    case False
    from lst have "cs = [] \<or> \<not> isspace U (last cs)" by (cases cs) auto
    from 2(2)[OF False this] False show ?thesis
      by (simp add: collapse_unfold(2) single_cons)
  next
    case True
    define r where "r = dropWhile (isspace U) cs"
    have split: "cs = takeWhile (isspace U) cs @ r" by (simp add: r_def)
    have rne: "r \<noteq> []"
    proof
      assume "r = []"
      then have "\<forall>x\<in>set cs. isspace U x" by (simp add: r_def)
      with True have "isspace U (last (c # cs))" by (cases cs) auto
      with lst show False by simp
    qed
    then obtain d r' where r: "r = d # r'" by (cases r) auto
    have nd: "\<not> isspace U d" using r r_def by (metis hd_dropWhile list.sel(1) rne)
    have "last cs = last r" using split rne by (metis last_appendR)
    moreover have "last (c # cs) = last cs" using split rne by (cases cs) auto
    ultimately have "\<not> isspace U (last r)" using lst by simp
    with 2(1)[OF True] have ih: "single_spaced U (collapse_whitespace U r)" by (simp add: r_def)
    have "collapse_whitespace U (c # cs) = 32 # d # collapse_whitespace U r'"
      using True r nd by (simp add: collapse_unfold r_def[symmetric])
    moreover have "collapse_whitespace U r = d # collapse_whitespace U r'"
      using r nd by (simp add: collapse_unfold)
    ultimately show ?thesis using ih nd by simp
  qed
qed

lemma collapse_hd:
  "s \<noteq> [] \<Longrightarrow> \<not> isspace U (hd s) \<Longrightarrow>
     collapse_whitespace U s \<noteq> [] \<and> hd (collapse_whitespace U s) = hd s"
  by (cases s) (auto simp: collapse_unfold)

lemma drop_hd:
  "s \<noteq> [] \<Longrightarrow> \<not> isspace U (hd s) \<Longrightarrow>
     drop_space_before_punctuation U s \<noteq> [] \<and> hd (drop_space_before_punctuation U s) = hd s"
  by (cases s) (auto simp: drop_unfold)

lemma collapse_id: "single_spaced U s \<Longrightarrow> collapse_whitespace U s = s"
proof (induction U s rule: single_spaced.induct)
  case (1 U) show ?case by simp
next
  case (2 U c) then show ?case by (simp add: collapse_unfold)
next
  case (3 U c d r)
  then have ih: "collapse_whitespace U (d # r) = d # r" by simp
  show ?case
  proof (cases "isspace U c")
    case False then show ?thesis using ih by (simp add: collapse_unfold)
  next
    case True
    with 3(2) have "c = 32" "\<not> isspace U d" by auto
    then show ?thesis using True ih by (simp add: collapse_unfold)
  qed
qed

lemma drop_id: "tidy U s \<Longrightarrow> drop_space_before_punctuation U s = s"
proof (induction U s rule: tidy.induct)
  case (1 U) show ?case by (simp add: drop_space_before_punctuation.simps)
next
  case (2 U c) then show ?case by (simp add: drop_unfold drop_space_before_punctuation.simps)
next
  case (3 U c d r)
  then have ih: "drop_space_before_punctuation U (d # r) = d # r" by simp
  show ?case
  proof (cases "isspace U c")
    case False then show ?thesis using ih by (simp add: drop_unfold)
  next
    case True
    with 3(2) have f: "\<not> isspace U d" "\<not> punctuation d" by auto
    then have "dropWhile (isspace U) (d # r) = d # r" by simp
    from drop_unfold(4)[OF True this f(2)] ih show ?thesis by simp
  qed
qed

lemma drop_tidy: "single_spaced U s \<Longrightarrow> tidy U (drop_space_before_punctuation U s)"
proof (induction U s rule: drop_space_before_punctuation.induct)
  case (1 U) show ?case by (simp add: drop_space_before_punctuation.simps)
next
  case (2 U c cs)
  show ?case
  proof (cases "isspace U c")
    case False
    with 2(5) have "single_spaced U cs" by (simp add: single_cons)
    from 2(4)[OF False this] False show ?thesis by (simp add: drop_unfold tidy_cons)
  next
    case True
    with 2(5) obtain d r where cs: "cs = d # r" and c: "c = 32" and nd: "\<not> isspace U d"
      by (cases cs) auto
    have dw: "dropWhile (isspace U) cs = d # r" using cs nd by simp
    from 2(5) cs have scs: "single_spaced U (d # r)" by simp
    with nd have sr: "single_spaced U r" by (simp add: single_cons)
    show ?thesis
    proof (cases "punctuation d")
      case True': True
      from 2(2)[OF True dw True' sr] show ?thesis
        unfolding drop_unfold(3)[OF True dw True'] using nd by (simp add: tidy_cons)
    next
      case False
      from 2(3)[OF True dw False] scs cs have "tidy U (drop_space_before_punctuation U (d # r))"
        by simp
      moreover have "drop_space_before_punctuation U (d # r) = d # drop_space_before_punctuation U r"
        using nd by (simp add: drop_unfold)
      ultimately show ?thesis
        unfolding drop_unfold(4)[OF True dw False] using c nd False cs by simp
    qed
  qed
qed

lemma normalizar_shape:
  assumes "normalizar U (Some s) = Some t"
  shows "ascii_text t \<and> upper_text t \<and> tidy U t \<and> (t = [] \<or> \<not> isspace U (hd t))"
proof -
  define t1 where "t1 = ascii_fold U s"
  define t2 where "t2 = str_strip U (str_upper U t1)"
  define t3 where "t3 = collapse_whitespace U t2"
  from assms have t: "t = drop_space_before_punctuation U t3"
    by (auto simp: normalizar_def Let_def t1_def t2_def t3_def split: if_splits)
  have u: "ascii_text (str_upper U t1)" "upper_text (str_upper U t1)"
    using upper_props[OF ascii_fold_ascii] by (simp_all add: t1_def)
  have "set t \<subseteq> insert 32 (set (str_upper U t1))"
    using set_drop[of U t3] set_collapse[of U t2] set_strip[of U "str_upper U t1"]
    unfolding t t3_def t2_def by blast
  with u have a: "ascii_text t" "upper_text t"
    by (auto simp: ascii_text_def upper_text_def list_all_iff)
  have sh: "t2 = [] \<or> (\<not> isspace U (hd t2) \<and> \<not> isspace U (last t2))"
    unfolding t2_def by (rule strip_shape)
  then have "single_spaced U t3" unfolding t3_def by (intro collapse_single) auto
  then have td: "tidy U t" unfolding t by (rule drop_tidy)
  have "t = [] \<or> \<not> isspace U (hd t)"
  proof (cases "t2 = []")
    case True then show ?thesis by (simp add: t t3_def drop_space_before_punctuation.simps)
  next
    case False
    with sh have h2: "\<not> isspace U (hd t2)" by simp
    from collapse_hd[OF False h2] have h3: "t3 \<noteq> []" "hd t3 = hd t2" by (simp_all add: t3_def)
    with h2 drop_hd[of t3 U] show ?thesis by (simp add: t)
  qed
  with a td show ?thesis by simp
qed

lemma normalizar_fixed:
  assumes "ascii_text t" "upper_text t" "tidy U t" "\<not> isspace U (hd t)" "t \<noteq> []"
  shows "normalizar U (Some t) = Some t"
proof -
  have 1: "ascii_fold U t = t" using assms(1) by (rule ascii_fold_id)
  have 2: "str_upper U t = t" using assms(1,2) by (rule upper_id)
  have 3: "str_strip U t = t" using assms(3,4,5) tidy_last by (intro strip_id) auto
  have 4: "collapse_whitespace U t = t" using assms(3) by (intro collapse_id tidy_single)
  have 5: "drop_space_before_punctuation U t = t" using assms(3) by (rule drop_id)
  show ?thesis using assms(5) by (simp add: normalizar_def 1 2 3 4 5)
qed

lemmas normalizar_eval =
  normalizar_def ascii_fold_def str_strip_def str_upper_def isspace_def ascii_isspace_def
  ascii_upper_def punctuation_def u_def collapse_unfold drop_space_before_punctuation.simps

text \<open>
  C7 (as amended). Normalising twice gives the same as normalising once, except when
  the first result is the empty string: then the second call returns an absent result.
  With U+00F3 decomposing into \<open>o\<close> and U+0301, "Educacion (with o acute)" normalises to "EDUCACION".
  Absent and empty input give an absent result.
\<close>

theorem normalizar_twice:
  "normalizar U (normalizar U texto) =
     (if normalizar U texto = Some [] then None else normalizar U texto)
   \<and> (decomposition U 243 = [111, 769] \<longrightarrow>
        normalizar U (Some (u ''Educaci'' @ [243] @ u ''n'')) = Some (u ''EDUCACION''))
   \<and> normalizar U None = None
   \<and> normalizar U (Some []) = None"
proof -
  have twice: "normalizar U (normalizar U texto) =
     (if normalizar U texto = Some [] then None else normalizar U texto)"
  proof (cases "normalizar U texto")
    case None
    then show ?thesis by (simp add: normalizar_def)
  next
    case (Some t)
    then obtain s where s: "texto = Some s" by (cases texto) (auto simp: normalizar_def)
    show ?thesis
    proof (cases "t = []")
      case True
      with Some show ?thesis by (simp add: normalizar_def)
    next
      case False
      from normalizar_shape[OF Some[unfolded s]] False
      have "normalizar U (Some t) = Some t" by (intro normalizar_fixed) auto
      with Some False show ?thesis by simp
    qed
  qed
  have ex: "decomposition U 243 = [111, 769] \<longrightarrow>
        normalizar U (Some (u ''Educaci'' @ [243] @ u ''n'')) = Some (u ''EDUCACION'')"
    by (simp add: normalizar_eval)
  have "normalizar U None = None" "normalizar U (Some []) = None"
    by (simp_all add: normalizar_def)
  with twice ex show ?thesis by blast
qed

theorem normalizar_twice_witness:
  "normalizar unicode_excerpt (normalizar unicode_excerpt (Some (u ''  a  b ,  c .  '')))
     = Some (u ''A B, C.'')
   \<and> decomposition unicode_excerpt 243 = [111, 769]
   \<and> normalizar unicode_excerpt (Some (u ''Educaci'' @ [243] @ u ''n'')) = Some (u ''EDUCACION'')"
proof -
  have d: "decomposition unicode_excerpt 243 = [111, 769]" by (simp add: unicode_excerpt_def)
  have n: "normalizar unicode_excerpt (Some (u ''  a  b ,  c .  '')) = Some (u ''A B, C.'')"
    by (simp add: normalizar_eval)
  from normalizar_twice[of unicode_excerpt "Some (u ''  a  b ,  c .  '')"] d n
  show ?thesis by (simp add: u_def)
qed

text \<open>
  The claim as stated fails on a string of one space: its normalisation is the empty
  string, and normalising the empty string gives an absent result.
\<close>

theorem normalizar_not_idempotent:
  "normalizar unicode_excerpt (normalizar unicode_excerpt (Some (u '' '')))
     \<noteq> normalizar unicode_excerpt (Some (u '' ''))"
  by (simp add: normalizar_eval)

section \<open>Properties of the equivalent amount\<close>

lemma tipo_values_differ:
  "tipo_value PRESTAMO \<noteq> tipo_value SUBVENCION_DIRECTA"
  "tipo_value GARANTIA \<noteq> tipo_value SUBVENCION_DIRECTA"
  "tipo_value GARANTIA \<noteq> tipo_value PRESTAMO"
  by (simp_all add: u_def)

lemmas equivalente_defs =
  calcular_importe_equivalente_def calcular_equivalente_prestamo_placeholder_def
  calcular_equivalente_garantia_placeholder_def dict_get_default_def

lemma equivalente_zero:
  "calcular_importe_equivalente None f r i m = (Inr 0, [])"
  "calcular_importe_equivalente (Some 0) f r i m = (Inr 0, [])"
  by (simp_all add: equivalente_defs)

lemma equivalente_prestamo:
  "x \<noteq> 0 \<Longrightarrow> md (u ''plazo_meses'') = Some v \<Longrightarrow> as_number v = Some p \<Longrightarrow>
   calcular_importe_equivalente (Some x) f r (Some (tipo_value PRESTAMO)) (Some md)
     = (Inr (if 60 \<le> p then x * 25 / 100 else x * 15 / 100), [])"
  using tipo_values_differ by (simp add: equivalente_defs del: tipo_value.simps)

lemma equivalente_prestamo_default:
  "x \<noteq> 0 \<Longrightarrow> (case m of None \<Rightarrow> True | Some md \<Rightarrow> md (u ''plazo_meses'') = None) \<Longrightarrow>
   calcular_importe_equivalente (Some x) f r (Some (tipo_value PRESTAMO)) m
     = (Inr (x * 25 / 100), [])"
  using tipo_values_differ
  by (auto simp add: equivalente_defs as_number_def simp del: tipo_value.simps split: option.splits)

lemma equivalente_garantia:
  "x \<noteq> 0 \<Longrightarrow> md (u ''porcentaje_garantia'') = Some v \<Longrightarrow> as_number v = Some g \<Longrightarrow>
   calcular_importe_equivalente (Some x) f r (Some (tipo_value GARANTIA)) (Some md)
     = (Inr (x * (g / 100) * 5 / 100), [])"
  using tipo_values_differ by (simp add: equivalente_defs del: tipo_value.simps)

lemma equivalente_garantia_default:
  "x \<noteq> 0 \<Longrightarrow> (case m of None \<Rightarrow> True | Some md \<Rightarrow> md (u ''porcentaje_garantia'') = None) \<Longrightarrow>
   calcular_importe_equivalente (Some x) f r (Some (tipo_value GARANTIA)) m
     = (Inr (x * (80 / 100) * 5 / 100), [])"
  using tipo_values_differ
  by (auto simp add: equivalente_defs as_number_def simp del: tipo_value.simps split: option.splits)

lemma equivalente_no_reconocido:
  "x \<noteq> 0 \<Longrightarrow> i \<notin> set instrumentos_reconocidos \<Longrightarrow>
   calcular_importe_equivalente (Some x) f r (Some i) m = (Inr x, [aviso_instrumento i])"
  by (simp add: equivalente_defs instrumentos_reconocidos_def del: tipo_value.simps)

text \<open>
  C5. An absent or zero nominal amount gives 0.0 for every instrument (and logs
  nothing). For a nominal amount other than zero: a loan gives 25 per cent of the
  principal when the term in months is 60 or more, also when no term is given (the
  default is 60), and 15 per cent when the term is under 60; a guarantee gives the nominal
  amount times the coverage percentage over 100 (80 when none is given) times 0.05; an
  instrument string outside the recognised ones gives the nominal amount and one warning
  that names the string.
\<close>

theorem calcular_importe_equivalente_dispatch:
  "calcular_importe_equivalente None f r j m = (Inr 0, [])
   \<and> calcular_importe_equivalente (Some 0) f r j m = (Inr 0, [])
   \<and> (x \<noteq> 0 \<and> md (u ''plazo_meses'') = Some v \<and> as_number v = Some p \<longrightarrow>
        calcular_importe_equivalente (Some x) f r (Some (u ''prestamo'')) (Some md)
          = (Inr (if 60 \<le> p then x * 25 / 100 else x * 15 / 100), []))
   \<and> (x \<noteq> 0 \<and> md (u ''plazo_meses'') = None \<longrightarrow>
        calcular_importe_equivalente (Some x) f r (Some (u ''prestamo'')) (Some md)
          = (Inr (x * 25 / 100), []))
   \<and> (x \<noteq> 0 \<longrightarrow>
        calcular_importe_equivalente (Some x) f r (Some (u ''prestamo'')) None
          = (Inr (x * 25 / 100), []))
   \<and> (x \<noteq> 0 \<and> md (u ''porcentaje_garantia'') = Some w \<and> as_number w = Some g \<longrightarrow>
        calcular_importe_equivalente (Some x) f r (Some (u ''garantia'')) (Some md)
          = (Inr (x * (g / 100) * 5 / 100), []))
   \<and> (x \<noteq> 0 \<and> md (u ''porcentaje_garantia'') = None \<longrightarrow>
        calcular_importe_equivalente (Some x) f r (Some (u ''garantia'')) (Some md)
          = (Inr (x * (80 / 100) * 5 / 100), []))
   \<and> (x \<noteq> 0 \<longrightarrow>
        calcular_importe_equivalente (Some x) f r (Some (u ''garantia'')) None
          = (Inr (x * (80 / 100) * 5 / 100), []))
   \<and> (x \<noteq> 0 \<and> i \<notin> set instrumentos_reconocidos \<longrightarrow>
        calcular_importe_equivalente (Some x) f r (Some i) m
          = (Inr x, [u ''Instrumento no reconocido '' @ [39] @ i @ [39]
                       @ u ''. Usando importe nominal como equivalente.'']))"
  using equivalente_zero[of f r j m]
    equivalente_prestamo[of x md v p f r]
    equivalente_prestamo_default[of x "Some md" f r]
    equivalente_prestamo_default[of x None f r]
    equivalente_garantia[of x md w g f r]
    equivalente_garantia_default[of x "Some md" f r]
    equivalente_garantia_default[of x None f r]
    equivalente_no_reconocido[of x i f r m]
  by (simp add: aviso_instrumento_def)

lemma leasing_no_reconocido: "u ''leasing'' \<notin> set instrumentos_reconocidos"
  by (simp add: instrumentos_reconocidos_def u_def)

theorem calcular_importe_equivalente_dispatch_witness:
  "calcular_importe_equivalente (Some 100000) 0 None (Some (u ''prestamo''))
       (Some [u ''plazo_meses'' \<mapsto> PInt 60]) = (Inr 25000, [])
   \<and> calcular_importe_equivalente (Some 100000) 0 None (Some (u ''prestamo''))
       (Some [u ''plazo_meses'' \<mapsto> PInt 59]) = (Inr 15000, [])
   \<and> calcular_importe_equivalente (Some 100000) 0 None (Some (u ''prestamo'')) None
       = (Inr 25000, [])
   \<and> calcular_importe_equivalente (Some 100000) 0 None (Some (u ''garantia''))
       (Some [u ''porcentaje_garantia'' \<mapsto> PInt 50]) = (Inr 2500, [])
   \<and> calcular_importe_equivalente (Some 100000) 0 None (Some (u ''garantia'')) None
       = (Inr 4000, [])
   \<and> u ''leasing'' \<notin> set instrumentos_reconocidos
   \<and> calcular_importe_equivalente (Some 100000) 0 None (Some (u ''leasing'')) None
       = (Inr 100000, [u ''Instrumento no reconocido '' @ [39] @ u ''leasing'' @ [39]
                         @ u ''. Usando importe nominal como equivalente.''])"
  using
    calcular_importe_equivalente_dispatch[where x = 100000 and f = 0 and r = None
      and md = "[u ''plazo_meses'' \<mapsto> PInt 60]" and v = "PInt 60" and p = 60
      and m = None and i = "u ''leasing''"]
    calcular_importe_equivalente_dispatch[where x = 100000 and f = 0 and r = None
      and md = "[u ''plazo_meses'' \<mapsto> PInt 59]" and v = "PInt 59" and p = 59]
    calcular_importe_equivalente_dispatch[where x = 100000 and f = 0 and r = None
      and md = "[u ''porcentaje_garantia'' \<mapsto> PInt 50]" and w = "PInt 50" and g = 50]
    leasing_no_reconocido
  by (simp add: as_number_def)

section \<open>Properties of tokens\<close>

lemmas jwt_defs =
  create_token_pair_def create_access_token_def create_refresh_token_def
  jwt_encode_def jwt_decode_def decode_token_def verify_token_def refresh_access_token_def
  new_UserInToken_def dict_get_def dict_get_default_def timedelta_minutes_def timedelta_days_def
  ACCESS_TOKEN_EXPIRE_MINUTES_def REFRESH_TOKEN_EXPIRE_DAYS_def

lemma claim_names_differ:
  "u ''sub'' \<noteq> u ''exp''" "u ''role'' \<noteq> u ''exp''" "u ''sub'' \<noteq> u ''role''"
  "u ''type'' \<noteq> u ''exp''" "u ''type'' \<noteq> u ''sub''" "u ''type'' \<noteq> u ''role''"
  by (simp_all add: u_def)

lemma verify_access_token_of_pair:
  "now \<le> t + 1800 \<Longrightarrow>
   verify_token (access_token (create_token_pair n r t t')) now
     = Inr (Some \<lparr> UserInToken.username = n, UserInToken.role = r \<rparr>)"
  using claim_names_differ by (auto simp: jwt_defs)

lemma decode_expired_access_token:
  "(case delta of Some d \<Rightarrow> if d \<noteq> 0 then t + d else t + 1800 | None \<Rightarrow> t + 1800) < now \<Longrightarrow>
   decode_token (create_access_token data delta t) now = None"
  by (auto simp: jwt_defs split: option.splits)

lemma verify_undecodable: "decode_token tok now = None \<Longrightarrow> verify_token tok now = Inr None"
  by (simp add: verify_token_def)

text \<open>
  C1. For every user name and role, \<open>verify_token\<close> applied to the access token of
  \<open>create_token_pair\<close>, at any clock reading up to the token's expiry 30 minutes after its
  creation, returns the user with that name and that role. For every claims dictionary,
  an access token created with an explicit lifetime \<open>d\<close> and decoded when the clock is
  past creation time plus \<open>d\<close> gives no result, from \<open>decode_token\<close> and from \<open>verify_token\<close>;
  so does a token of the default lifetime past its 30 minutes. (A lifetime of zero is
  taken as no lifetime by the source, and the token then has the default lifetime.)
\<close>

theorem token_round_trip:
  "(now \<le> t + 1800 \<longrightarrow>
      verify_token (access_token (create_token_pair n r t t')) now
        = Inr (Some \<lparr> UserInToken.username = n, UserInToken.role = r \<rparr>))
   \<and> (d \<noteq> 0 \<and> t + d < now \<longrightarrow>
        decode_token (create_access_token data (Some d) t) now = None
        \<and> verify_token (create_access_token data (Some d) t) now = Inr None)
   \<and> (t + 1800 < now \<longrightarrow>
        decode_token (create_access_token data None t) now = None
        \<and> verify_token (create_access_token data None t) now = Inr None
        \<and> decode_token (create_access_token data (Some 0) t) now = None)"
  using verify_access_token_of_pair[of now t n r t']
    decode_expired_access_token[where delta = "Some d" and t = t and now = now and data = data]
    decode_expired_access_token[where delta = None and t = t and now = now and data = data]
    decode_expired_access_token[where delta = "Some 0" and t = t and now = now and data = data]
    verify_undecodable[of "create_access_token data (Some d) t" now]
    verify_undecodable[of "create_access_token data None t" now]
  by simp

theorem token_round_trip_witness:
  "verify_token (access_token (create_token_pair (u ''ana'') (u ''admin'') 1000 1000)) 1000
     = Inr (Some \<lparr> UserInToken.username = u ''ana'', UserInToken.role = u ''admin'' \<rparr>)
   \<and> decode_token (create_access_token [u ''sub'' \<mapsto> PStr (u ''ana'')] (Some 1) 1000) 1002 = None
   \<and> verify_token (create_access_token [u ''sub'' \<mapsto> PStr (u ''ana'')] (Some 1) 1000) 1002
       = Inr None
   \<and> decode_token (create_access_token [u ''sub'' \<mapsto> PStr (u ''ana'')] None 1000) 2801 = None"
  using
    token_round_trip[where now = 1000 and t = 1000 and n = "u ''ana''" and r = "u ''admin''"
      and t' = 1000]
    token_round_trip[where now = 1002 and t = 1000 and d = 1
      and data = "[u ''sub'' \<mapsto> PStr (u ''ana'')]"]
    token_round_trip[where now = 2801 and t = 1000
      and data = "[u ''sub'' \<mapsto> PStr (u ''ana'')]"]
  by simp

lemma refresh_rejects_access_token:
  "data (u ''type'') \<noteq> Some (PStr (u ''refresh'')) \<Longrightarrow>
   refresh_access_token (create_access_token data delta t) now tm = None"
  using claim_names_differ
  by (auto simp: jwt_defs Let_def split: option.splits pyval.splits sum.splits)

lemma decode_access_token_of_pair:
  "now \<le> t + 1800 \<Longrightarrow>
   decode_token (access_token (create_token_pair n r t t')) now
     = Some [u ''sub'' \<mapsto> PStr n, u ''role'' \<mapsto> PStr r, u ''exp'' \<mapsto> PInt (t + 1800)]"
  by (auto simp: jwt_defs)

lemma refresh_characterised:
  "refresh_access_token tok now tm =
     (case decode_token tok now of
        None \<Rightarrow> None
      | Some payload \<Rightarrow>
          if payload (u ''type'') = Some (PStr (u ''refresh''))
             \<and> payload (u ''sub'') \<noteq> None \<and> payload (u ''sub'') \<noteq> Some PNone
          then Some (create_access_token
                 [u ''sub'' \<mapsto> the (payload (u ''sub'')),
                  u ''role'' \<mapsto> dict_get_default payload (u ''role'') (PStr (u ''user''))]
                 None tm)
          else None)"
  by (auto simp: refresh_access_token_def dict_get_def Let_def split: option.splits)

lemma refresh_of_pair:
  "now \<le> t' + 604800 \<Longrightarrow>
   refresh_access_token (refresh_token (create_token_pair n r t t')) now tm
     = Some (create_access_token [u ''sub'' \<mapsto> PStr n, u ''role'' \<mapsto> PStr r] None tm)"
  using claim_names_differ
  by (auto simp: create_token_pair_def create_refresh_token_def refresh_access_token_def
      decode_token_def jwt_decode_def jwt_encode_def dict_get_def dict_get_default_def
      timedelta_days_def REFRESH_TOKEN_EXPIRE_DAYS_def)

text \<open>
  C2. \<open>refresh_access_token\<close> gives no result for every token that \<open>create_access_token\<close>
  makes from claims without the marker "type": "refresh", whatever the lifetime and the
  clock; the access token of a token pair is such a token, and until its expiry
  \<open>decode_token\<close> succeeds on it while \<open>refresh_access_token\<close> gives no result. For any
  token, \<open>refresh_access_token\<close> mints a token exactly when the token decodes, the type
  marker of its payload is "refresh" and a \<open>sub\<close> claim is present and not \<open>None\<close>; the new
  token is an access token for that \<open>sub\<close> and the payload's role ("user" when absent).
  The refresh token of a token pair, until its expiry after 7 days, is refreshed.
\<close>

theorem refresh_discipline:
  "(data (u ''type'') \<noteq> Some (PStr (u ''refresh'')) \<longrightarrow>
      refresh_access_token (create_access_token data delta t) now tm = None)
   \<and> (now \<le> t + 1800 \<longrightarrow>
        decode_token (access_token (create_token_pair n r t t')) now
          = Some [u ''sub'' \<mapsto> PStr n, u ''role'' \<mapsto> PStr r, u ''exp'' \<mapsto> PInt (t + 1800)]
        \<and> refresh_access_token (access_token (create_token_pair n r t t')) now tm = None)
   \<and> refresh_access_token tok now tm =
       (case decode_token tok now of
          None \<Rightarrow> None
        | Some payload \<Rightarrow>
            if payload (u ''type'') = Some (PStr (u ''refresh''))
               \<and> payload (u ''sub'') \<noteq> None \<and> payload (u ''sub'') \<noteq> Some PNone
            then Some (create_access_token
                   [u ''sub'' \<mapsto> the (payload (u ''sub'')),
                    u ''role'' \<mapsto> dict_get_default payload (u ''role'') (PStr (u ''user''))]
                   None tm)
            else None)
   \<and> (now \<le> t' + 604800 \<longrightarrow>
        refresh_access_token (refresh_token (create_token_pair n r t t')) now tm
          = Some (create_access_token [u ''sub'' \<mapsto> PStr n, u ''role'' \<mapsto> PStr r] None tm))"
proof -
  have "refresh_access_token (access_token (create_token_pair n r t t')) now tm = None"
    using refresh_rejects_access_token[of "[u ''sub'' \<mapsto> PStr n, u ''role'' \<mapsto> PStr r]" None t now tm]
      claim_names_differ
    by (simp add: create_token_pair_def)
  then show ?thesis
    using refresh_rejects_access_token[of data delta t now tm]
      decode_access_token_of_pair[of now t n r t']
      refresh_characterised[of tok now tm]
      refresh_of_pair[of now t' n r t tm]
    by simp
qed

theorem refresh_discipline_witness:
  "[u ''sub'' \<mapsto> PStr (u ''ana'')] (u ''type'') \<noteq> Some (PStr (u ''refresh''))
   \<and> refresh_access_token (create_access_token [u ''sub'' \<mapsto> PStr (u ''ana'')] None 1000) 1000 1000
       = None
   \<and> decode_token (access_token (create_token_pair (u ''ana'') (u ''admin'') 1000 1000)) 1000
       = Some [u ''sub'' \<mapsto> PStr (u ''ana''), u ''role'' \<mapsto> PStr (u ''admin''),
               u ''exp'' \<mapsto> PInt 2800]
   \<and> refresh_access_token (access_token (create_token_pair (u ''ana'') (u ''admin'') 1000 1000))
         1000 1000 = None
   \<and> refresh_access_token (refresh_token (create_token_pair (u ''ana'') (u ''admin'') 1000 1000))
         1000 1000
       = Some (create_access_token [u ''sub'' \<mapsto> PStr (u ''ana''), u ''role'' \<mapsto> PStr (u ''admin'')]
                 None 1000)"
proof -
  have h: "[u ''sub'' \<mapsto> PStr (u ''ana'')] (u ''type'') \<noteq> Some (PStr (u ''refresh''))"
    by (simp add: u_def)
  show ?thesis
    using h
      refresh_discipline[where data = "[u ''sub'' \<mapsto> PStr (u ''ana'')]" and delta = None
        and t = 1000 and now = 1000 and tm = 1000 and n = "u ''ana''" and r = "u ''admin''"
        and t' = 1000 and tok = "Malformed []"]
    by simp
qed

text \<open>
  C10. When the decoded payload of a token has a \<open>sub\<close> claim (a string) and no \<open>role\<close>
  claim, \<open>verify_token\<close> succeeds and returns the user with role "user"; and when the
  payload also carries the refresh marker, \<open>refresh_access_token\<close> mints the access token
  for that \<open>sub\<close> with role "user".
\<close>

theorem role_defaults_to_user:
  "decode_token tok now = Some payload \<and> payload (u ''sub'') = Some (PStr n)
     \<and> payload (u ''role'') = None \<longrightarrow>
   verify_token tok now = Inr (Some \<lparr> UserInToken.username = n, UserInToken.role = u ''user'' \<rparr>)
   \<and> (payload (u ''type'') = Some (PStr (u ''refresh'')) \<longrightarrow>
        refresh_access_token tok now tm
          = Some (create_access_token [u ''sub'' \<mapsto> PStr n, u ''role'' \<mapsto> PStr (u ''user'')]
                    None tm))"
  by (auto simp: verify_token_def refresh_access_token_def new_UserInToken_def dict_get_def
      dict_get_default_def)

theorem role_defaults_to_user_witness:
  "decode_token
      (Signed ALGORITHM SECRET_KEY
         [u ''sub'' \<mapsto> PStr (u ''ana''), u ''type'' \<mapsto> PStr (u ''refresh''), u ''exp'' \<mapsto> PInt 2000])
      1000
     = Some [u ''sub'' \<mapsto> PStr (u ''ana''), u ''type'' \<mapsto> PStr (u ''refresh''),
             u ''exp'' \<mapsto> PInt 2000]
   \<and> verify_token
       (Signed ALGORITHM SECRET_KEY
          [u ''sub'' \<mapsto> PStr (u ''ana''), u ''type'' \<mapsto> PStr (u ''refresh''), u ''exp'' \<mapsto> PInt 2000])
       1000
     = Inr (Some \<lparr> UserInToken.username = u ''ana'', UserInToken.role = u ''user'' \<rparr>)
   \<and> refresh_access_token
       (Signed ALGORITHM SECRET_KEY
          [u ''sub'' \<mapsto> PStr (u ''ana''), u ''type'' \<mapsto> PStr (u ''refresh''), u ''exp'' \<mapsto> PInt 2000])
       1000 1001
     = Some (create_access_token [u ''sub'' \<mapsto> PStr (u ''ana''), u ''role'' \<mapsto> PStr (u ''user'')]
               None 1001)"
proof -
  let ?p = "[u ''sub'' \<mapsto> PStr (u ''ana''), u ''type'' \<mapsto> PStr (u ''refresh''),
             u ''exp'' \<mapsto> PInt 2000]"
  have d: "decode_token (Signed ALGORITHM SECRET_KEY ?p) 1000 = Some ?p"
    by (simp add: decode_token_def jwt_decode_def)
  have p: "?p (u ''sub'') = Some (PStr (u ''ana''))" "?p (u ''role'') = None"
    "?p (u ''type'') = Some (PStr (u ''refresh''))"
    by (simp_all add: u_def)
  show ?thesis
    using d p
      role_defaults_to_user[of "Signed ALGORITHM SECRET_KEY ?p" 1000 ?p "u ''ana''" 1001]
    by simp
qed

section \<open>Properties of updating a user\<close>

lemma find_by_id: "find (\<lambda>row. id' row = uid) db = Some usr \<Longrightarrow> id' usr = uid"
  by (induction db) (auto split: if_splits)

lemma find_replace:
  "find (\<lambda>row. id' row = uid) db = Some usr \<Longrightarrow> id' new = uid \<Longrightarrow>
     find (\<lambda>row. id' row = uid) (replace_row db new) = Some new"
  by (induction db) (auto split: if_splits)

lemma filter_replace:
  "id' new = uid \<Longrightarrow>
     filter (\<lambda>row. id' row \<noteq> uid) (replace_row db new) = filter (\<lambda>row. id' row \<noteq> uid) db"
  by (induction db) auto

lemma only_role_changed:
  "apply_update (only_role r) usr = (case r of None \<Rightarrow> usr | Some rv \<Rightarrow> usr\<lparr> Usuario.role := rv \<rparr>)"
  by (simp add: apply_update_def only_role_def set_required_def set_nullable_def split: option.splits)

lemma only_role_ok:
  "violates_not_null (only_role r) = (r = None)" "\<not> violates_unique db uid (only_role r)"
  by (auto simp: violates_not_null_def violates_unique_def only_role_def sets_null_def)

lemma update_only_role:
  assumes "get_user_by_id db uid = Some usr"
  shows "update_user db uid (only_role r) now =
     (case r of
        None \<Rightarrow> (Inl IntegrityError, db)
      | Some rv \<Rightarrow>
          if rv = Usuario.role usr then (Inr (Some usr), replace_row db usr)
          else (Inr (Some (usr\<lparr> Usuario.role := rv, updated_at := Some now \<rparr>)),
                replace_row db (usr\<lparr> Usuario.role := rv, updated_at := Some now \<rparr>)))"
proof (cases r)
  case None
  then show ?thesis using assms by (simp add: update_user_def only_role_ok)
next
  case (Some rv)
  have "(usr\<lparr> Usuario.role := rv \<rparr> = usr) = (rv = Usuario.role usr)"
    by (cases usr) auto
  then show ?thesis using assms Some
    by (simp add: update_user_def only_role_ok only_role_changed Let_def)
qed

text \<open>
  C8. For a user that exists and a payload in which only the role was given, the row of
  that user after the call has the email, name, active flag, user name, password hash
  and telegram fields it had before, and the rows of all other users are as before; when
  the role given is a string the call returns the user with that role. For a user id
  that is not in the table, the call returns no result and the table is as before.
\<close>

theorem update_user_partial:
  "(get_user_by_id db uid = Some usr \<longrightarrow>
      (\<exists>usr'. get_user_by_id (snd (update_user db uid (only_role r) now)) uid = Some usr'
         \<and> Usuario.email usr' = Usuario.email usr
         \<and> Usuario.nombre usr' = Usuario.nombre usr
         \<and> Usuario.activo usr' = Usuario.activo usr
         \<and> Usuario.username usr' = Usuario.username usr
         \<and> hashed_password usr' = hashed_password usr
         \<and> Usuario.telegram_chat_id usr' = Usuario.telegram_chat_id usr
         \<and> Usuario.telegram_username usr' = Usuario.telegram_username usr
         \<and> Usuario.telegram_verificado usr' = Usuario.telegram_verificado usr
         \<and> (r = Some rv \<longrightarrow>
               fst (update_user db uid (only_role r) now) = Inr (Some usr')
               \<and> Usuario.role usr' = rv))
      \<and> filter (\<lambda>row. id' row \<noteq> uid) (snd (update_user db uid (only_role r) now))
          = filter (\<lambda>row. id' row \<noteq> uid) db)
   \<and> (get_user_by_id db uid = None \<longrightarrow> update_user db uid user_data now = (Inr None, db))"
proof -
  have absent: "get_user_by_id db uid = None \<longrightarrow> update_user db uid user_data now = (Inr None, db)"
    by (simp add: update_user_def)
  have present: "(\<exists>usr'. get_user_by_id (snd (update_user db uid (only_role r) now)) uid = Some usr'
         \<and> Usuario.email usr' = Usuario.email usr
         \<and> Usuario.nombre usr' = Usuario.nombre usr
         \<and> Usuario.activo usr' = Usuario.activo usr
         \<and> Usuario.username usr' = Usuario.username usr
         \<and> hashed_password usr' = hashed_password usr
         \<and> Usuario.telegram_chat_id usr' = Usuario.telegram_chat_id usr
         \<and> Usuario.telegram_username usr' = Usuario.telegram_username usr
         \<and> Usuario.telegram_verificado usr' = Usuario.telegram_verificado usr
         \<and> (r = Some rv \<longrightarrow>
               fst (update_user db uid (only_role r) now) = Inr (Some usr')
               \<and> Usuario.role usr' = rv))
      \<and> filter (\<lambda>row. id' row \<noteq> uid) (snd (update_user db uid (only_role r) now))
          = filter (\<lambda>row. id' row \<noteq> uid) db"
    if found: "get_user_by_id db uid = Some usr"
  proof -
    have i: "id' usr = uid" using found by (auto simp: get_user_by_id_def dest: find_by_id)
    have f: "find (\<lambda>row. id' row = uid) db = Some usr" using found by (simp add: get_user_by_id_def)
    show ?thesis
    proof (cases r)
      case None
      then show ?thesis using found by (simp add: update_only_role[OF found])
    next
      case (Some role_given)
      show ?thesis
      proof (cases "role_given = Usuario.role usr")
        case True
        then show ?thesis
          using Some i f
          by (simp add: update_only_role[OF found] get_user_by_id_def find_replace filter_replace)
      next
        case False
        let ?new = "usr\<lparr> Usuario.role := role_given, updated_at := Some now \<rparr>"
        have n: "id' ?new = uid" using i by simp
        show ?thesis
          using Some False f
          by (simp add: update_only_role[OF found] get_user_by_id_def
              find_replace[OF f n] filter_replace[OF n])
      qed
    qed
  qed
  from absent present show ?thesis by blast
qed

theorem update_user_partial_witness:
  "get_user_by_id [ana, luis] (u ''1'') = Some ana
   \<and> (\<exists>usr'. get_user_by_id
                (snd (update_user [ana, luis] (u ''1'') (only_role (Some (u ''viewer''))) 20))
                (u ''1'') = Some usr'
         \<and> Usuario.email usr' = Usuario.email ana
         \<and> Usuario.nombre usr' = Usuario.nombre ana
         \<and> Usuario.activo usr' = Usuario.activo ana
         \<and> Usuario.username usr' = Usuario.username ana
         \<and> hashed_password usr' = hashed_password ana
         \<and> Usuario.telegram_chat_id usr' = Usuario.telegram_chat_id ana
         \<and> Usuario.telegram_username usr' = Usuario.telegram_username ana
         \<and> Usuario.telegram_verificado usr' = Usuario.telegram_verificado ana
         \<and> fst (update_user [ana, luis] (u ''1'') (only_role (Some (u ''viewer''))) 20)
             = Inr (Some usr')
         \<and> Usuario.role usr' = u ''viewer'')
   \<and> update_user [ana, luis] (u ''1'') (only_role (Some (u ''viewer''))) 20
       = (Inr (Some (ana\<lparr> Usuario.role := u ''viewer'', updated_at := Some 20 \<rparr>)),
          [ana\<lparr> Usuario.role := u ''viewer'', updated_at := Some 20 \<rparr>, luis])
   \<and> get_user_by_id [ana, luis] (u ''3'') = None
   \<and> update_user [ana, luis] (u ''3'') (only_role (Some (u ''viewer''))) 20
       = (Inr None, [ana, luis])"
proof -
  have g: "get_user_by_id [ana, luis] (u ''1'') = Some ana"
    "get_user_by_id [ana, luis] (u ''3'') = None"
    by (simp_all add: get_user_by_id_def ana_def luis_def u_def)
  have e: "update_user [ana, luis] (u ''1'') (only_role (Some (u ''viewer''))) 20
       = (Inr (Some (ana\<lparr> Usuario.role := u ''viewer'', updated_at := Some 20 \<rparr>)),
          [ana\<lparr> Usuario.role := u ''viewer'', updated_at := Some 20 \<rparr>, luis])"
    using update_only_role[OF g(1), of "Some (u ''viewer'')" 20]
    by (simp add: ana_def luis_def u_def)
  from g
    update_user_partial[of "[ana, luis]" "u ''1''" ana "Some (u ''viewer'')" 20 "u ''viewer''"
      "only_role (Some (u ''viewer''))"]
  have p: "\<exists>usr'. get_user_by_id
                (snd (update_user [ana, luis] (u ''1'') (only_role (Some (u ''viewer''))) 20))
                (u ''1'') = Some usr'
         \<and> Usuario.email usr' = Usuario.email ana
         \<and> Usuario.nombre usr' = Usuario.nombre ana
         \<and> Usuario.activo usr' = Usuario.activo ana
         \<and> Usuario.username usr' = Usuario.username ana
         \<and> hashed_password usr' = hashed_password ana
         \<and> Usuario.telegram_chat_id usr' = Usuario.telegram_chat_id ana
         \<and> Usuario.telegram_username usr' = Usuario.telegram_username ana
         \<and> Usuario.telegram_verificado usr' = Usuario.telegram_verificado ana
         \<and> fst (update_user [ana, luis] (u ''1'') (only_role (Some (u ''viewer''))) 20)
             = Inr (Some usr')
         \<and> Usuario.role usr' = u ''viewer''"
    by blast
  from g
    update_user_partial[of "[ana, luis]" "u ''3''" ana "Some (u ''viewer'')" 20 "u ''viewer''"
      "only_role (Some (u ''viewer''))"]
  have a: "update_user [ana, luis] (u ''3'') (only_role (Some (u ''viewer''))) 20
       = (Inr None, [ana, luis])"
    by blast
  from g e p a show ?thesis by blast
qed

section \<open>Properties of the derived amount\<close>

text \<open>
  C9. For every Concesion row the derived \<open>importe\<close> is \<open>importe_equivalente\<close> when the
  linked regime classifies the row as state aid (\<open>es_ayuda_estado\<close>), and
  \<open>importe_nominal\<close> otherwise; an unset field counts as 0.
\<close>

theorem importe_selects_amount:
  "importe c =
     (if es_ayuda_estado c
      then (case importe_equivalente c of None \<Rightarrow> 0 | Some v \<Rightarrow> v)
      else (case importe_nominal c of None \<Rightarrow> 0 | Some v \<Rightarrow> v))"
  by (simp add: importe_def or_zero_def split: option.splits)

section \<open>Properties of the de-minimis check\<close>

text \<open>
  C6. For every beneficiary id, concession date and window length the check assumes no
  prior aid: \<open>acumulado_previo\<close> is 0, \<open>acumulado_total\<close> is the new equivalent amount, the
  ceiling is 300000, \<open>valido\<close> holds exactly when the total is at most 300000, and
  \<open>margen_restante\<close> is \<open>max 0 (300000 - total)\<close>, never negative. A new aid of 250000 is
  valid with margin 50000; one of 350000 is invalid with margin 0.
\<close>

theorem de_minimis_arithmetic:
  "acumulado_previo (validar_limite_de_minimis b x d w) = 0
   \<and> acumulado_total (validar_limite_de_minimis b x d w) = x
   \<and> limite_aplicable (validar_limite_de_minimis b x d w) = 300000
   \<and> valido (validar_limite_de_minimis b x d w) = (x \<le> 300000)
   \<and> margen_restante (validar_limite_de_minimis b x d w) = max 0 (300000 - x)
   \<and> 0 \<le> margen_restante (validar_limite_de_minimis b x d w)
   \<and> valido (validar_limite_de_minimis b 250000 d w)
   \<and> acumulado_total (validar_limite_de_minimis b 250000 d w) = 250000
   \<and> margen_restante (validar_limite_de_minimis b 250000 d w) = 50000
   \<and> \<not> valido (validar_limite_de_minimis b 350000 d w)
   \<and> margen_restante (validar_limite_de_minimis b 350000 d w) = 0"
  by (simp add: validar_limite_de_minimis_def)


end
